theory Spec2Isabelle
  imports Main
begin

section \<open>Run-time values\<close>

text \<open>
  Settings records, message payloads and responses are JSON values: what
  \<^verbatim>\<open>chrome.storage\<close> persists and what crosses a message channel. An object is a map
  from property name to value, so two objects are equal exactly when they are deep-equal
  (same properties, equal values, in any order). \<open>JNum\<close> carries the integer-valued
  numbers only. The value \<^verbatim>\<open>undefined\<close> is not a JSON value: a missing property is
  \<open>None\<close> in the object's map.
\<close>

datatype json =
    JNull
  | JBool bool
  | JNum int
  | JStr string
  | JArr "json list"
  | JObj "string \<Rightarrow> json option"

text \<open>The decimal name of an array index, as \<^verbatim>\<open>String(i)\<close> gives it.\<close>

fun String_of :: "nat \<Rightarrow> string" where
  "String_of n =
     (if n < 10 then [''0123456789'' ! n]
      else String_of (n div 10) @ [''0123456789'' ! (n mod 10)])"

definition index_props :: "'a list \<Rightarrow> (string \<rightharpoonup> 'a)" where
  "index_props xs = map_of (zip (map String_of [0..<length xs]) xs)"

text \<open>
  The own enumerable properties that an object spread \<^verbatim>\<open>{...v}\<close> copies: the properties
  of an object, the indexed elements of an array, the indexed characters of a string, and
  nothing for \<^verbatim>\<open>null\<close>, a boolean or a number.
\<close>

fun own_props :: "json \<Rightarrow> (string \<rightharpoonup> json)" where
  "own_props (JObj m) = m"
| "own_props (JArr xs) = index_props xs"
| "own_props (JStr s) = index_props (map (\<lambda>c. JStr [c]) s)"
| "own_props JNull = Map.empty"
| "own_props (JBool b) = Map.empty"
| "own_props (JNum n) = Map.empty"

text \<open>\<^verbatim>\<open>{...a, ...b}\<close>: the properties of \<open>a\<close>, overridden and extended by those of \<open>b\<close>.\<close>

definition spread :: "json \<Rightarrow> json \<Rightarrow> json" where
  "spread a b = JObj (own_props a ++ own_props b)"

text \<open>
  A value that was thrown or that a promise was rejected with: an instance of
  \<^verbatim>\<open>Error\<close> with its message, or any other value. The catch blocks of the code all turn
  it into text by \<^verbatim>\<open>error instanceof Error ? error.message : 'Unknown error'\<close>.
\<close>

datatype thrown = ErrorInstance string | OtherValue

fun error_text :: "thrown \<Rightarrow> string" where
  "error_text (ErrorInstance message) = message"
| "error_text OtherValue = ''Unknown error''"

section \<open>Shared types (shared/types.ts)\<close>

definition DEFAULT_USER_SETTINGS :: json where
  "DEFAULT_USER_SETTINGS =
     JObj [''tier'' \<mapsto> JStr ''free'',
           ''enabled'' \<mapsto> JBool True,
           ''theme'' \<mapsto> JStr ''system'',
           ''notifications'' \<mapsto> JObj [''enabled'' \<mapsto> JBool True, ''sound'' \<mapsto> JBool False],
           ''preferences'' \<mapsto> JObj Map.empty]"

record message =
  type :: string
  payload :: "json option"

record MessageResponse =
  success :: bool
  data :: "json option"
  error :: "string option"

text \<open>
  \<^verbatim>\<open>SubscriptionTier\<close> and \<^verbatim>\<open>FeatureKey\<close> are unions of string literals, so at run time
  a tier and a feature key are strings. \<^verbatim>\<open>FEATURE_ACCESS\<close> is an object literal used as a
  lookup table; the model is a partial map from key to required tier, where \<open>None\<close> stands
  for a lookup that yields no tier of the table (the key is not one of the five entries).
\<close>

definition FeatureKey :: "string list" where
  "FeatureKey =
     [''basic_feature'', ''advanced_analytics'', ''export_data'', ''custom_themes'',
      ''priority_support'']"

definition FEATURE_ACCESS :: "string \<rightharpoonup> string" where
  "FEATURE_ACCESS =
     [''basic_feature'' \<mapsto> ''free'',
      ''advanced_analytics'' \<mapsto> ''pro'',
      ''export_data'' \<mapsto> ''pro'',
      ''custom_themes'' \<mapsto> ''pro'',
      ''priority_support'' \<mapsto> ''pro'']"

text \<open>
  \<^verbatim>\<open>const requiredTier = FEATURE_ACCESS[feature];
  if (requiredTier === 'free') return true;
  return tier === 'pro';\<close>
\<close>

definition hasFeatureAccess :: "string \<Rightarrow> string \<Rightarrow> bool" where
  "hasFeatureAccess tier feature =
     (let requiredTier = FEATURE_ACCESS feature
      in if requiredTier = Some ''free'' then True else tier = ''pro'')"

definition USER_SETTINGS :: string where
  "USER_SETTINGS = ''userSettings''"

section \<open>Message passing (shared/messaging.ts)\<close>

subsection \<open>Sending to tabs\<close>

text \<open>
  A tab as \<^verbatim>\<open>chrome.tabs.query\<close> reports it; only its optional numeric \<^verbatim>\<open>id\<close> is read.
  The tabs API is the environment of the code: the enumeration either rejects or yields the
  tabs, and a send to a tab either rejects or yields the response of that tab's content
  script.
\<close>

record Tab =
  tab_id :: "int option"

record chrome_tabs =
  tabs_query :: "thrown + Tab list"
  tabs_sendMessage :: "int \<Rightarrow> message \<Rightarrow> thrown + MessageResponse"

text \<open>
  \<^verbatim>\<open>try { return await chrome.tabs.sendMessage(tabId, message); }
  catch (error) { return { success: false, error: ... }; }\<close>
\<close>

definition sendMessageToTab :: "chrome_tabs \<Rightarrow> int \<Rightarrow> message \<Rightarrow> MessageResponse" where
  "sendMessageToTab chrome tabId message =
     (case tabs_sendMessage chrome tabId message of
        Inr response \<Rightarrow> response
      | Inl err \<Rightarrow> \<lparr>success = False, data = None, error = Some (error_text err)\<rparr>)"

text \<open>
  The outcome of a broadcast: the returned \<^verbatim>\<open>Map\<close> from tab id to response, and the
  tab ids that \<^verbatim>\<open>chrome.tabs.sendMessage\<close> was called with, in call order.
\<close>

record broadcast_outcome =
  results :: "int \<rightharpoonup> MessageResponse"
  sent_to :: "int list"

text \<open>
  The callback mapped over the tabs. \<^verbatim>\<open>if (tab.id)\<close> is false for a missing id and for
  the number \<open>0\<close>. The callbacks run concurrently under \<^verbatim>\<open>Promise.all\<close>; each writes only
  the entry of its own tab id, with the response to that id, so the order in which they
  finish does not show in the returned map.
\<close>

fun broadcast_tab :: "chrome_tabs \<Rightarrow> message \<Rightarrow> Tab \<Rightarrow> broadcast_outcome \<Rightarrow> broadcast_outcome" where
  "broadcast_tab chrome message tab out =
     (case tab_id tab of
        None \<Rightarrow> out
      | Some i \<Rightarrow>
          if i = 0 then out
          else \<lparr>results = (results out)(i \<mapsto> sendMessageToTab chrome i message),
                sent_to = sent_to out @ [i]\<rparr>)"

text \<open>
  \<^verbatim>\<open>const results = new Map();
  try { const tabs = await chrome.tabs.query({}); await Promise.all(tabs.map(...)); }
  catch (error) { console.error(...); }
  return results;\<close>
\<close>

definition broadcastToAllTabs :: "chrome_tabs \<Rightarrow> message \<Rightarrow> broadcast_outcome" where
  "broadcastToAllTabs chrome message =
     (case tabs_query chrome of
        Inl err \<Rightarrow> \<lparr>results = Map.empty, sent_to = []\<rparr>
      | Inr tabs \<Rightarrow> fold (broadcast_tab chrome message) tabs \<lparr>results = Map.empty, sent_to = []\<rparr>)"

subsection \<open>Dispatch\<close>

text \<open>
  What a registered handler does when called: it returns a plain response, it returns a
  promise, or it throws. A promise is fulfilled with a response, rejected with a thrown
  value, or never settles.
\<close>

datatype promise = Fulfilled MessageResponse | Rejected thrown | Pending

datatype handler_result = Value MessageResponse | Promise promise | Throws thrown

record MessageSender =
  sender_tab :: "Tab option"

type_synonym MessageHandler = "message \<Rightarrow> MessageSender \<Rightarrow> handler_result"

text \<open>
  The handler map is the object that \<^verbatim>\<open>createMessageListener\<close> is given. Its own properties
  are the registered handlers, one per tag. It is an ordinary object (the service worker
  passes an object literal), so the lookup \<^verbatim>\<open>handlers[message.type]\<close> that finds no own
  property goes on to \<^verbatim>\<open>Object.prototype\<close> and is \<^verbatim>\<open>undefined\<close> only when that has no member
  of the name either.
\<close>

type_synonym MessageHandlerMap = "string \<rightharpoonup> MessageHandler"

text \<open>
  The members of \<^verbatim>\<open>Object.prototype\<close>, by what they do when called as
  \<^verbatim>\<open>handler(message, sender)\<close>, that is with \<^verbatim>\<open>this\<close> undefined and the message object as
  first argument:
  \<^item> \<open>ObjectConstructor\<close> is \<^verbatim>\<open>Object\<close>, which returns its argument when that is an object;
  \<^item> \<open>ObjectToString\<close> is \<^verbatim>\<open>Object.prototype.toString\<close>, which names the type of \<^verbatim>\<open>this\<close>;
  \<^item> \<open>ConvertsThis\<close> is a function that first converts \<^verbatim>\<open>this\<close> to an object and so throws a
    \<^verbatim>\<open>TypeError\<close>;
  \<^item> \<open>PrototypeObject\<close> is the value of \<^verbatim>\<open>__proto__\<close>, the object \<^verbatim>\<open>Object.prototype\<close> itself:
    truthy, and not a function, so that calling it throws a \<^verbatim>\<open>TypeError\<close>.
\<close>

datatype prototype_member = ObjectConstructor | ObjectToString | ConvertsThis | PrototypeObject

definition Object_prototype :: "string \<rightharpoonup> prototype_member" where
  "Object_prototype =
     [''constructor'' \<mapsto> ObjectConstructor,
      ''toString'' \<mapsto> ObjectToString,
      ''toLocaleString'' \<mapsto> ConvertsThis,
      ''valueOf'' \<mapsto> ConvertsThis,
      ''hasOwnProperty'' \<mapsto> ConvertsThis,
      ''isPrototypeOf'' \<mapsto> ConvertsThis,
      ''propertyIsEnumerable'' \<mapsto> ConvertsThis,
      ''__defineGetter__'' \<mapsto> ConvertsThis,
      ''__defineSetter__'' \<mapsto> ConvertsThis,
      ''__lookupGetter__'' \<mapsto> ConvertsThis,
      ''__lookupSetter__'' \<mapsto> ConvertsThis,
      ''__proto__'' \<mapsto> PrototypeObject]"

text \<open>The value of \<^verbatim>\<open>handlers[tag]\<close>, with \<open>None\<close> for \<^verbatim>\<open>undefined\<close>.\<close>

datatype property = Registered MessageHandler | Inherited prototype_member

definition handlers_lookup :: "MessageHandlerMap \<Rightarrow> string \<Rightarrow> property option" where
  "handlers_lookup handlers tag =
     (case handlers tag of
        Some handler \<Rightarrow> Some (Registered handler)
      | None \<Rightarrow> map_option Inherited (Object_prototype tag))"

text \<open>
  What is raised: a value that a handler threw, or a \<^verbatim>\<open>TypeError\<close> of the language itself
  (whose message is the engine's). What a call returns when it returns no promise, and so
  what \<^verbatim>\<open>sendResponse\<close> can be called with: a response record, a string, or the message
  object.
\<close>

datatype raised = Thrown thrown | TypeError

datatype returned_value = Response MessageResponse | StringValue string | MessageValue message

datatype call_outcome = Returns returned_value | ReturnsPromise promise | Raises raised

text \<open>\<^verbatim>\<open>handler(message, sender)\<close> for each value that the lookup can give.\<close>

fun call_handler :: "property \<Rightarrow> message \<Rightarrow> MessageSender \<Rightarrow> call_outcome" where
  "call_handler (Registered handler) message sender =
     (case handler message sender of
        Value response \<Rightarrow> Returns (Response response)
      | Promise result \<Rightarrow> ReturnsPromise result
      | Throws err \<Rightarrow> Raises (Thrown err))"
| "call_handler (Inherited ObjectConstructor) message sender = Returns (MessageValue message)"
| "call_handler (Inherited ObjectToString) message sender =
     Returns (StringValue ''[object Undefined]'')"
| "call_handler (Inherited ConvertsThis) message sender = Raises TypeError"
| "call_handler (Inherited PrototypeObject) message sender = Raises TypeError"

text \<open>
  What one call of the listener does: the value it returns to the runtime (\<open>Inl\<close> when the
  call throws instead), the calls of \<^verbatim>\<open>sendResponse\<close> made before it returns, and the calls
  of \<^verbatim>\<open>sendResponse\<close> made afterwards, once the handler's promise has settled.
  \<^verbatim>\<open>sendResponse\<close> is the runtime's callback and is taken not to throw.
\<close>

record listener_outcome =
  returned :: "raised + bool"
  sent_now :: "returned_value list"
  sent_on_settle :: "returned_value list"

text \<open>
  \<^verbatim>\<open>const handler = handlers[message.type];
  if (handler) {
    const result = handler(message, sender);
    if (result instanceof Promise) {
      result.then(sendResponse).catch((error) => { sendResponse({ success: false, error: ... }); });
      return true;
    } else { sendResponse(result); return false; }
  }
  sendResponse({ success: false, error: `Unknown message type: ${message.type}` });
  return false;\<close>
  Every value that the lookup finds is truthy. The call of the handler stands outside any
  \<^verbatim>\<open>try\<close>, so what it raises leaves the listener.
\<close>

definition createMessageListener ::
  "MessageHandlerMap \<Rightarrow> message \<Rightarrow> MessageSender \<Rightarrow> listener_outcome" where
  "createMessageListener handlers message sender =
     (case handlers_lookup handlers (type message) of
        Some handler \<Rightarrow>
          (case call_handler handler message sender of
             ReturnsPromise result \<Rightarrow>
               \<lparr>returned = Inr True,
                sent_now = [],
                sent_on_settle =
                  (case result of
                     Fulfilled response \<Rightarrow> [Response response]
                   | Rejected err \<Rightarrow>
                       [Response \<lparr>success = False, data = None, error = Some (error_text err)\<rparr>]
                   | Pending \<Rightarrow> [])\<rparr>
           | Returns result \<Rightarrow>
               \<lparr>returned = Inr False, sent_now = [result], sent_on_settle = []\<rparr>
           | Raises err \<Rightarrow>
               \<lparr>returned = Inl err, sent_now = [], sent_on_settle = []\<rparr>)
      | None \<Rightarrow>
          \<lparr>returned = Inr False,
           sent_now =
             [Response \<lparr>success = False, data = None,
                        error = Some (''Unknown message type: '' @ type message)\<rparr>],
           sent_on_settle = []\<rparr>)"

section \<open>Storage helpers (shared/storage.ts)\<close>

text \<open>
  The synchronized storage area: the stored items, and whether the environment makes a
  \<^verbatim>\<open>chrome.storage.sync.get\<close> or a \<^verbatim>\<open>chrome.storage.sync.set\<close> reject (backing store
  unavailable, quota exceeded) and with what.
\<close>

record chrome_storage =
  sync_items :: "string \<rightharpoonup> json"
  sync_get_rejects :: "thrown option"
  sync_set_rejects :: "thrown option"

text \<open>\<^verbatim>\<open>chrome.storage.sync.get(key)\<close>: an object with the item of that key, if there is one.\<close>

definition storage_sync_get :: "chrome_storage \<Rightarrow> string \<Rightarrow> thrown + (string \<rightharpoonup> json)" where
  "storage_sync_get chrome key =
     (case sync_get_rejects chrome of
        Some err \<Rightarrow> Inl err
      | None \<Rightarrow> Inr (sync_items chrome |` {key}))"

text \<open>\<^verbatim>\<open>chrome.storage.sync.set({ [key]: value })\<close>.\<close>

definition storage_sync_set :: "chrome_storage \<Rightarrow> string \<Rightarrow> json \<Rightarrow> thrown + chrome_storage" where
  "storage_sync_set chrome key v =
     (case sync_set_rejects chrome of
        Some err \<Rightarrow> Inl err
      | None \<Rightarrow> Inr (chrome\<lparr>sync_items := (sync_items chrome)(key \<mapsto> v)\<rparr>))"

text \<open>
  \<^verbatim>\<open>try { const result = await chrome.storage.sync.get(key);
        return (result[key] as T) ?? defaultValue; }
  catch (error) { return defaultValue; }\<close>
  The operator \<^verbatim>\<open>??\<close> takes the default for \<^verbatim>\<open>undefined\<close> and for \<^verbatim>\<open>null\<close>.
\<close>

definition getStorageValue :: "chrome_storage \<Rightarrow> string \<Rightarrow> json \<Rightarrow> json" where
  "getStorageValue chrome key defaultValue =
     (case storage_sync_get chrome key of
        Inr result \<Rightarrow>
          (case result key of
             None \<Rightarrow> defaultValue
           | Some JNull \<Rightarrow> defaultValue
           | Some v \<Rightarrow> v)
      | Inl err \<Rightarrow> defaultValue)"

text \<open>
  \<^verbatim>\<open>try { await chrome.storage.sync.set({ [key]: value }); return true; }
  catch (error) { return false; }\<close>
  The result is the returned boolean and the storage afterwards.
\<close>

definition setStorageValue :: "chrome_storage \<Rightarrow> string \<Rightarrow> json \<Rightarrow> bool \<times> chrome_storage" where
  "setStorageValue chrome key v =
     (case storage_sync_set chrome key v of
        Inr chrome' \<Rightarrow> (True, chrome')
      | Inl err \<Rightarrow> (False, chrome))"

text \<open>
  \<^verbatim>\<open>const settings = await getStorageValue(STORAGE_KEYS.USER_SETTINGS, DEFAULT_USER_SETTINGS);
  return { ...DEFAULT_USER_SETTINGS, ...settings };\<close>
\<close>

definition getUserSettings :: "chrome_storage \<Rightarrow> json" where
  "getUserSettings chrome =
     (let settings = getStorageValue chrome USER_SETTINGS DEFAULT_USER_SETTINGS
      in spread DEFAULT_USER_SETTINGS settings)"

definition saveUserSettings :: "chrome_storage \<Rightarrow> json \<Rightarrow> bool \<times> chrome_storage" where
  "saveUserSettings chrome settings = setStorageValue chrome USER_SETTINGS settings"

text \<open>
  \<^verbatim>\<open>try {
    const currentSettings = await getUserSettings();
    const newSettings = { ...currentSettings, ...updates };
    const success = await saveUserSettings(newSettings);
    return success ? newSettings : null;
  } catch (error) { return null; }\<close>
  The result is the returned record (\<open>None\<close> for \<^verbatim>\<open>null\<close>) and the storage afterwards.
  Neither helper throws and a spread of JSON values does not throw, so the catch block has
  no path leading to it.
\<close>

definition updateUserSettings :: "chrome_storage \<Rightarrow> json \<Rightarrow> json option \<times> chrome_storage" where
  "updateUserSettings chrome updates =
     (let currentSettings = getUserSettings chrome;
          newSettings = spread currentSettings updates;
          (success, chrome') = saveUserSettings chrome newSettings
      in (if success then Some newSettings else None, chrome'))"

section \<open>The default schema\<close>

text \<open>
  \<open>has_path v p\<close>: following the property names \<open>p\<close> from \<open>v\<close>, every step starts at an
  object that has the named property (whatever its value, \<^verbatim>\<open>null\<close> included).
\<close>

fun has_path :: "json \<Rightarrow> string list \<Rightarrow> bool" where
  "has_path v [] = True"
| "has_path (JObj m) (k # ks) = (case m k of None \<Rightarrow> False | Some w \<Rightarrow> has_path w ks)"
| "has_path v (k # ks) = False"

text \<open>The top-level fields of \<open>DEFAULT_USER_SETTINGS\<close>, and all of its fields as paths.\<close>

definition default_top_level :: "string list" where
  "default_top_level = [''tier'', ''enabled'', ''theme'', ''notifications'', ''preferences'']"

definition default_schema :: "string list list" where
  "default_schema =
     [[''tier''], [''enabled''], [''theme''],
      [''notifications''], [''notifications'', ''enabled''], [''notifications'', ''sound''],
      [''preferences'']]"

definition contains_top_level :: "json \<Rightarrow> bool" where
  "contains_top_level v = list_all (\<lambda>k. has_path v [k]) default_top_level"

definition contains_default_schema :: "json \<Rightarrow> bool" where
  "contains_default_schema v = list_all (has_path v) default_schema"

section \<open>Concrete environments\<close>

text \<open>
  A stored record from an older version: it has a tier and a \<^verbatim>\<open>notifications\<close> record
  without \<^verbatim>\<open>sound\<close>. The storage holds it and works.
\<close>

definition legacy_settings :: json where
  "legacy_settings =
     JObj [''tier'' \<mapsto> JStr ''pro'', ''notifications'' \<mapsto> JObj [''enabled'' \<mapsto> JBool True]]"

definition legacy_storage :: chrome_storage where
  "legacy_storage =
     \<lparr>sync_items = [USER_SETTINGS \<mapsto> legacy_settings],
      sync_get_rejects = None, sync_set_rejects = None\<rparr>"

text \<open>A working storage that holds only a theme, and a complete record with a preference.\<close>

definition theme_only_storage :: chrome_storage where
  "theme_only_storage =
     \<lparr>sync_items = [USER_SETTINGS \<mapsto> JObj [''theme'' \<mapsto> JStr ''dark'']],
      sync_get_rejects = None, sync_set_rejects = None\<rparr>"

definition complete_settings :: json where
  "complete_settings =
     JObj [''tier'' \<mapsto> JStr ''pro'',
           ''enabled'' \<mapsto> JBool False,
           ''theme'' \<mapsto> JStr ''dark'',
           ''notifications'' \<mapsto> JObj [''enabled'' \<mapsto> JBool False, ''sound'' \<mapsto> JBool True],
           ''preferences'' \<mapsto> JObj [''fontSize'' \<mapsto> JNum 14],
           ''locale'' \<mapsto> JStr ''de'']"

text \<open>
  The storage of the unit test \<^verbatim>\<open>updateUserSettings > should return null on error\<close>:
  nothing is stored, \<^verbatim>\<open>chrome.storage.sync.get\<close> rejects with
  \<^verbatim>\<open>new Error('Storage error')\<close>, and \<^verbatim>\<open>chrome.storage.sync.set\<close> works. The update is
  \<^verbatim>\<open>{ theme: 'dark' }\<close>.
\<close>

definition unreadable_storage :: chrome_storage where
  "unreadable_storage =
     \<lparr>sync_items = Map.empty,
      sync_get_rejects = Some (ErrorInstance ''Storage error''), sync_set_rejects = None\<rparr>"

definition theme_update :: json where
  "theme_update = JObj [''theme'' \<mapsto> JStr ''dark'']"

text \<open>A storage that holds a customized record, cannot be read, and can be written.\<close>

definition unreadable_customized_storage :: chrome_storage where
  "unreadable_customized_storage =
     \<lparr>sync_items = [USER_SETTINGS \<mapsto> complete_settings],
      sync_get_rejects = Some (ErrorInstance ''Storage error''), sync_set_rejects = None\<rparr>"

text \<open>A storage that holds a customized record and can be read but not written.\<close>

definition unwritable_storage :: chrome_storage where
  "unwritable_storage =
     \<lparr>sync_items = [USER_SETTINGS \<mapsto> complete_settings],
      sync_get_rejects = None,
      sync_set_rejects = Some (ErrorInstance ''QUOTA_BYTES_PER_ITEM quota exceeded'')\<rparr>"

text \<open>
  Three open tabs, of which tab 2 has no content script listening; a tab list with one tab
  that has no id; a tab list with ids 1, none, 0 and 3; and a tabs API whose enumeration
  rejects.
\<close>

definition tab_2_unreachable :: "int \<Rightarrow> message \<Rightarrow> thrown + MessageResponse" where
  "tab_2_unreachable tabId message =
     (if tabId = 2
      then Inl (ErrorInstance ''Could not establish connection. Receiving end does not exist.'')
      else Inr \<lparr>success = True, data = None, error = None\<rparr>)"

definition three_tabs :: chrome_tabs where
  "three_tabs =
     \<lparr>tabs_query = Inr [\<lparr>tab_id = Some 1\<rparr>, \<lparr>tab_id = Some 2\<rparr>, \<lparr>tab_id = Some 3\<rparr>],
      tabs_sendMessage = tab_2_unreachable\<rparr>"

definition one_tab_without_id :: chrome_tabs where
  "one_tab_without_id =
     \<lparr>tabs_query = Inr [\<lparr>tab_id = None\<rparr>], tabs_sendMessage = tab_2_unreachable\<rparr>"

definition tabs_with_falsy_ids :: chrome_tabs where
  "tabs_with_falsy_ids =
     \<lparr>tabs_query =
        Inr [\<lparr>tab_id = Some 1\<rparr>, \<lparr>tab_id = None\<rparr>, \<lparr>tab_id = Some 0\<rparr>, \<lparr>tab_id = Some 3\<rparr>],
      tabs_sendMessage = tab_2_unreachable\<rparr>"

definition tabs_query_rejects :: chrome_tabs where
  "tabs_query_rejects =
     \<lparr>tabs_query = Inl (ErrorInstance ''Tabs cannot be queried right now''),
      tabs_sendMessage = tab_2_unreachable\<rparr>"

definition action_message :: message where
  "action_message = \<lparr>type = ''PERFORM_ACTION'', payload = None\<rparr>"

text \<open>
  The registered handlers of a handler map: a synchronous handler, an asynchronous handler
  that fulfills and an asynchronous handler that rejects. A second map registers one
  synchronous handler that throws.
\<close>

definition ok_response :: MessageResponse where
  "ok_response = \<lparr>success = True, data = None, error = None\<rparr>"

definition sync_handler :: MessageHandler where
  "sync_handler message sender = Value ok_response"

definition fulfilling_handler :: MessageHandler where
  "fulfilling_handler message sender = Promise (Fulfilled ok_response)"

definition rejecting_handler :: MessageHandler where
  "rejecting_handler message sender = Promise (Rejected (ErrorInstance ''quota exceeded''))"

definition example_handlers :: MessageHandlerMap where
  "example_handlers =
     [''PERFORM_ACTION'' \<mapsto> sync_handler,
      ''GET_SETTINGS'' \<mapsto> fulfilling_handler,
      ''UPDATE_SETTINGS'' \<mapsto> rejecting_handler]"

definition throwing_handler :: MessageHandler where
  "throwing_handler message sender = Throws (ErrorInstance ''No active tab found'')"

definition throwing_handlers :: MessageHandlerMap where
  "throwing_handlers = [''GET_TAB_INFO'' \<mapsto> throwing_handler]"

section \<open>Properties of the feature gate\<close>

lemma FEATURE_ACCESS_dom: "dom FEATURE_ACCESS = set FeatureKey"
  by (auto simp: FEATURE_ACCESS_def FeatureKey_def split: if_splits)

lemma FEATURE_ACCESS_outside: "feature \<notin> set FeatureKey \<Longrightarrow> FEATURE_ACCESS feature = None"
  using FEATURE_ACCESS_dom by blast

text \<open>
  C2. On each of the five feature keys the table has an entry; \<open>hasFeatureAccess\<close> answers
  true whenever the required tier is \<open>free\<close> and otherwise answers true exactly for the tier
  \<open>pro\<close>. Hence the tier \<open>pro\<close> is granted every key, and the tier \<open>free\<close> is granted a key
  exactly when the key requires \<open>free\<close>.
\<close>

theorem hasFeatureAccess_closed_set:
  assumes "feature \<in> set FeatureKey"
  shows "FEATURE_ACCESS feature \<noteq> None
    \<and> (FEATURE_ACCESS feature = Some ''free'' \<longrightarrow> hasFeatureAccess tier feature)
    \<and> (FEATURE_ACCESS feature \<noteq> Some ''free'' \<longrightarrow>
         hasFeatureAccess tier feature = (tier = ''pro''))
    \<and> hasFeatureAccess ''pro'' feature
    \<and> hasFeatureAccess ''free'' feature = (FEATURE_ACCESS feature = Some ''free'')"
proof -
  from assms have "FEATURE_ACCESS feature \<noteq> None"
    using FEATURE_ACCESS_dom by blast
  then show ?thesis
    by (simp add: hasFeatureAccess_def)
qed

theorem hasFeatureAccess_closed_set_witness:
  "''export_data'' \<in> set FeatureKey
   \<and> FEATURE_ACCESS ''export_data'' = Some ''pro''
   \<and> hasFeatureAccess ''pro'' ''export_data''
   \<and> \<not> hasFeatureAccess ''free'' ''export_data''
   \<and> ''basic_feature'' \<in> set FeatureKey
   \<and> FEATURE_ACCESS ''basic_feature'' = Some ''free''
   \<and> hasFeatureAccess ''free'' ''basic_feature''"
proof -
  have k1: "''export_data'' \<in> set FeatureKey" and k2: "''basic_feature'' \<in> set FeatureKey"
    by (simp_all add: FeatureKey_def)
  have t1: "FEATURE_ACCESS ''export_data'' = Some ''pro''"
    and t2: "FEATURE_ACCESS ''basic_feature'' = Some ''free''"
    by (simp_all add: FEATURE_ACCESS_def)
  show ?thesis
    using k1 k2 t1 t2
      hasFeatureAccess_closed_set[OF k1, of "''free''"]
      hasFeatureAccess_closed_set[OF k2, of "''free''"]
    by simp
qed

text \<open>
  C8. For a key outside the table the lookup yields no tier, the comparison with \<open>free\<close>
  fails, and the answer is the test \<open>tier = pro\<close>: the tier \<open>pro\<close> is granted the unknown
  feature and the tier \<open>free\<close> (or any other) is denied.
\<close>

theorem hasFeatureAccess_unknown_key:
  assumes "feature \<notin> set FeatureKey"
  shows "hasFeatureAccess tier feature = (tier = ''pro'')"
  using FEATURE_ACCESS_outside[OF assms] by (simp add: hasFeatureAccess_def)

theorem hasFeatureAccess_unknown_key_witness:
  "''beta_feature'' \<notin> set FeatureKey
   \<and> hasFeatureAccess ''pro'' ''beta_feature''
   \<and> \<not> hasFeatureAccess ''free'' ''beta_feature''"
proof -
  have k: "''beta_feature'' \<notin> set FeatureKey"
    by (simp add: FeatureKey_def)
  show ?thesis
    using k hasFeatureAccess_unknown_key[OF k, of "''pro''"]
      hasFeatureAccess_unknown_key[OF k, of "''free''"]
    by simp
qed

section \<open>Properties of the dispatcher\<close>

lemma Object_prototype_dom:
  "dom Object_prototype =
     {''constructor'', ''toString'', ''toLocaleString'', ''valueOf'', ''hasOwnProperty'',
      ''isPrototypeOf'', ''propertyIsEnumerable'', ''__defineGetter__'', ''__defineSetter__'',
      ''__lookupGetter__'', ''__lookupSetter__'', ''__proto__''}"
  by (auto simp: Object_prototype_def split: if_splits)

text \<open>
  Where the lookup finds neither a registered handler nor a member of \<open>Object.prototype\<close>,
  the listener sends the unknown-type failure once, returns \<open>false\<close> and does not throw.
  This is the part of C3 that holds on the code.
\<close>

lemma createMessageListener_no_property:
  assumes "handlers (type message) = None" and "Object_prototype (type message) = None"
  shows "createMessageListener handlers message sender =
           \<lparr>returned = Inr False,
            sent_now = [Response \<lparr>success = False, data = None,
                                  error = Some (''Unknown message type: '' @ type message)\<rparr>],
            sent_on_settle = []\<rparr>"
  using assms by (simp add: createMessageListener_def handlers_lookup_def)

lemma createMessageListener_not_a_real_tag:
  "createMessageListener example_handlers
     \<lparr>type = ''NOT_A_REAL_TAG'', payload = None\<rparr> \<lparr>sender_tab = None\<rparr> =
     \<lparr>returned = Inr False,
      sent_now = [Response \<lparr>success = False, data = None,
                            error = Some ''Unknown message type: NOT_A_REAL_TAG''\<rparr>],
      sent_on_settle = []\<rparr>"
  by (simp add: createMessageListener_def handlers_lookup_def example_handlers_def
      Object_prototype_def)

text \<open>
  Where the lookup finds no registered handler and does find a member of
  \<open>Object.prototype\<close>, the listener calls that member: it either sends what the member returns
  or throws, and in no case sends the unknown-type failure.
\<close>

lemma createMessageListener_inherited:
  assumes "handlers (type message) = None" and "Object_prototype (type message) = Some member"
  shows "createMessageListener handlers message sender =
           (case member of
              ObjectConstructor \<Rightarrow>
                \<lparr>returned = Inr False, sent_now = [MessageValue message], sent_on_settle = []\<rparr>
            | ObjectToString \<Rightarrow>
                \<lparr>returned = Inr False, sent_now = [StringValue ''[object Undefined]''],
                 sent_on_settle = []\<rparr>
            | ConvertsThis \<Rightarrow> \<lparr>returned = Inl TypeError, sent_now = [], sent_on_settle = []\<rparr>
            | PrototypeObject \<Rightarrow>
                \<lparr>returned = Inl TypeError, sent_now = [], sent_on_settle = []\<rparr>)"
  using assms
  by (cases member) (simp_all add: createMessageListener_def handlers_lookup_def)

text \<open>
  C3. The code departs from the claim at a tag that has no registered handler and names a
  member of \<open>Object.prototype\<close>. For the tag \<open>toString\<close> the listener sends the string
  \<open>[object Undefined]\<close> in place of the unknown-type failure; for the tag \<open>__proto__\<close> it sends
  nothing and throws a \<open>TypeError\<close>.
\<close>

theorem createMessageListener_inherited_tag:
  "example_handlers ''toString'' = None
   \<and> createMessageListener example_handlers
       \<lparr>type = ''toString'', payload = None\<rparr> \<lparr>sender_tab = None\<rparr> =
       \<lparr>returned = Inr False, sent_now = [StringValue ''[object Undefined]''],
        sent_on_settle = []\<rparr>
   \<and> example_handlers ''__proto__'' = None
   \<and> createMessageListener example_handlers
       \<lparr>type = ''__proto__'', payload = None\<rparr> \<lparr>sender_tab = None\<rparr> =
       \<lparr>returned = Inl TypeError, sent_now = [], sent_on_settle = []\<rparr>"
  by (simp add: createMessageListener_def handlers_lookup_def example_handlers_def
      Object_prototype_def)

text \<open>
  For a registered handler that returns: a plain response is sent before the listener
  returns \<open>false\<close>; a promise makes the listener return \<open>true\<close> and send nothing at once, and
  once the promise has settled exactly one response has been sent, the value of a fulfilled
  promise or the failure response with the text of a rejection. This is the part of C4 that
  holds on the code.
\<close>

lemma createMessageListener_registered:
  assumes "handlers (type message) = Some handler"
  shows "(handler message sender = Value response \<longrightarrow>
            createMessageListener handlers message sender =
              \<lparr>returned = Inr False, sent_now = [Response response], sent_on_settle = []\<rparr>)
       \<and> (handler message sender = Promise (Fulfilled response) \<longrightarrow>
            createMessageListener handlers message sender =
              \<lparr>returned = Inr True, sent_now = [], sent_on_settle = [Response response]\<rparr>)
       \<and> (handler message sender = Promise (Rejected err) \<longrightarrow>
            createMessageListener handlers message sender =
              \<lparr>returned = Inr True, sent_now = [],
               sent_on_settle =
                 [Response \<lparr>success = False, data = None, error = Some (error_text err)\<rparr>]\<rparr>)
       \<and> (handler message sender = Promise Pending \<longrightarrow>
            createMessageListener handlers message sender =
              \<lparr>returned = Inr True, sent_now = [], sent_on_settle = []\<rparr>)
       \<and> (handler message sender = Throws err \<longrightarrow>
            createMessageListener handlers message sender =
              \<lparr>returned = Inl (Thrown err), sent_now = [], sent_on_settle = []\<rparr>)"
  using assms by (simp add: createMessageListener_def handlers_lookup_def)

lemma createMessageListener_registered_examples:
  "createMessageListener example_handlers action_message \<lparr>sender_tab = None\<rparr> =
     \<lparr>returned = Inr False, sent_now = [Response ok_response], sent_on_settle = []\<rparr>
   \<and> createMessageListener example_handlers
       \<lparr>type = ''GET_SETTINGS'', payload = None\<rparr> \<lparr>sender_tab = None\<rparr> =
       \<lparr>returned = Inr True, sent_now = [], sent_on_settle = [Response ok_response]\<rparr>
   \<and> createMessageListener example_handlers
       \<lparr>type = ''UPDATE_SETTINGS'', payload = Some theme_update\<rparr> \<lparr>sender_tab = None\<rparr> =
       \<lparr>returned = Inr True, sent_now = [],
        sent_on_settle =
          [Response \<lparr>success = False, data = None, error = Some ''quota exceeded''\<rparr>]\<rparr>"
  by (simp add: createMessageListener_def handlers_lookup_def example_handlers_def
      action_message_def sync_handler_def fulfilling_handler_def rejecting_handler_def)

text \<open>
  C4. The code departs from the claim at a registered handler that throws before it
  returns: the listener sends no response, neither at once nor later, and the thrown value
  leaves the listener.
\<close>

theorem createMessageListener_throwing_handler:
  "throwing_handlers (type \<lparr>type = ''GET_TAB_INFO'', payload = None\<rparr>) = Some throwing_handler
   \<and> throwing_handler \<lparr>type = ''GET_TAB_INFO'', payload = None\<rparr> \<lparr>sender_tab = None\<rparr> =
       Throws (ErrorInstance ''No active tab found'')
   \<and> createMessageListener throwing_handlers
       \<lparr>type = ''GET_TAB_INFO'', payload = None\<rparr> \<lparr>sender_tab = None\<rparr> =
       \<lparr>returned = Inl (Thrown (ErrorInstance ''No active tab found'')),
        sent_now = [], sent_on_settle = []\<rparr>"
  by (simp add: createMessageListener_def handlers_lookup_def throwing_handlers_def
      throwing_handler_def)

section \<open>Properties of the broadcast\<close>

text \<open>
  The loop over the tabs, from any starting outcome: the entry of a tab id that some tab
  carries and that is not \<open>0\<close> is the response of the send to that id, every other entry is
  as before, and one send is logged for each tab with such an id.
\<close>

lemma fold_broadcast_tab_results:
  "results (fold (broadcast_tab chrome message) tabs out) i =
     (if i \<noteq> 0 \<and> Some i \<in> tab_id ` set tabs then Some (sendMessageToTab chrome i message)
      else results out i)"
proof (induction tabs arbitrary: out)
  case Nil
  then show ?case by simp
next
  case (Cons t ts)
  show ?case
  proof (cases "tab_id t")
    case None
    then show ?thesis using Cons.IH[of out] by (auto simp: image_iff)
  next
    case (Some j)
    then show ?thesis
      using Cons.IH[of out]
        Cons.IH[of "\<lparr>results = (results out)(j \<mapsto> sendMessageToTab chrome j message),
                      sent_to = sent_to out @ [j]\<rparr>"]
      by (auto simp: image_iff)
  qed
qed

lemma fold_broadcast_tab_sent_to:
  "sent_to (fold (broadcast_tab chrome message) tabs out) =
     sent_to out @
       map (the \<circ> tab_id) (filter (\<lambda>t. tab_id t \<noteq> None \<and> tab_id t \<noteq> Some 0) tabs)"
  by (induction tabs arbitrary: out) (auto split: option.splits)

lemma set_truthy_ids:
  "set (map (the \<circ> tab_id) (filter (\<lambda>t. tab_id t \<noteq> None \<and> tab_id t \<noteq> Some 0) tabs)) =
     {i. i \<noteq> 0 \<and> Some i \<in> tab_id ` set tabs}"
proof (induction tabs)
  case Nil
  then show ?case by simp
next
  case (Cons t ts)
  then show ?case by (cases "tab_id t") auto
qed

lemma broadcastToAllTabs_results:
  assumes "tabs_query chrome = Inr tabs"
  shows "results (broadcastToAllTabs chrome message) i =
     (if i \<noteq> 0 \<and> Some i \<in> tab_id ` set tabs then Some (sendMessageToTab chrome i message)
      else None)"
  using assms by (simp add: broadcastToAllTabs_def fold_broadcast_tab_results)

lemma broadcastToAllTabs_sent_to:
  assumes "tabs_query chrome = Inr tabs"
  shows "sent_to (broadcastToAllTabs chrome message) =
     map (the \<circ> tab_id) (filter (\<lambda>t. tab_id t \<noteq> None \<and> tab_id t \<noteq> Some 0) tabs)"
  using assms by (simp add: broadcastToAllTabs_def fold_broadcast_tab_sent_to)

lemma broadcastToAllTabs_dom:
  assumes "tabs_query chrome = Inr tabs"
  shows "dom (results (broadcastToAllTabs chrome message)) =
           {i. i \<noteq> 0 \<and> Some i \<in> tab_id ` set tabs}"
  using broadcastToAllTabs_results[OF assms] by (auto simp: dom_def)

lemma broadcastToAllTabs_query_rejected:
  assumes "tabs_query chrome = Inl err"
  shows "broadcastToAllTabs chrome message = \<lparr>results = Map.empty, sent_to = []\<rparr>"
  using assms by (simp add: broadcastToAllTabs_def)

text \<open>
  C5, as the claim states it, fails: the enumeration yields one tab, the tab has no id, and
  the returned mapping has no entry at all, so it does not have one entry per enumerated
  peer.
\<close>

theorem broadcastToAllTabs_tab_without_id_counterexample:
  "tabs_query one_tab_without_id = Inr [\<lparr>tab_id = None\<rparr>]
   \<and> length [\<lparr>tab_id = None\<rparr>] = 1
   \<and> dom (results (broadcastToAllTabs one_tab_without_id action_message)) = {}"
  by (simp add: one_tab_without_id_def broadcastToAllTabs_def)

text \<open>
  C5, amended. The broadcast always returns a mapping: the empty one when the enumeration
  rejects, and otherwise a mapping with exactly one entry for each tab id that an enumerated
  tab carries and that is not \<open>0\<close>. The entry of a tab whose send rejects is the failure
  response with the text of the rejection, and the entry of every other tab is the response
  that tab gave, whatever happens to the sends to the other tabs.
\<close>

theorem broadcastToAllTabs_partial_results:
  "(tabs_query chrome = Inl err \<longrightarrow>
      results (broadcastToAllTabs chrome message) = Map.empty)
   \<and> (tabs_query chrome = Inr tabs \<longrightarrow>
        dom (results (broadcastToAllTabs chrome message)) =
          {i. i \<noteq> 0 \<and> Some i \<in> tab_id ` set tabs}
        \<and> (\<forall>i \<in> dom (results (broadcastToAllTabs chrome message)).
             (\<forall>e. tabs_sendMessage chrome i message = Inl e \<longrightarrow>
                results (broadcastToAllTabs chrome message) i =
                  Some \<lparr>success = False, data = None, error = Some (error_text e)\<rparr>)
           \<and> (\<forall>response. tabs_sendMessage chrome i message = Inr response \<longrightarrow>
                results (broadcastToAllTabs chrome message) i = Some response)))"
proof (intro conjI impI)
  assume "tabs_query chrome = Inl err"
  then show "results (broadcastToAllTabs chrome message) = Map.empty"
    by (simp add: broadcastToAllTabs_query_rejected)
next
  assume q: "tabs_query chrome = Inr tabs"
  show "dom (results (broadcastToAllTabs chrome message)) =
          {i. i \<noteq> 0 \<and> Some i \<in> tab_id ` set tabs}"
    by (rule broadcastToAllTabs_dom[OF q])
  show "\<forall>i \<in> dom (results (broadcastToAllTabs chrome message)).
          (\<forall>e. tabs_sendMessage chrome i message = Inl e \<longrightarrow>
             results (broadcastToAllTabs chrome message) i =
               Some \<lparr>success = False, data = None, error = Some (error_text e)\<rparr>)
        \<and> (\<forall>response. tabs_sendMessage chrome i message = Inr response \<longrightarrow>
             results (broadcastToAllTabs chrome message) i = Some response)"
    using broadcastToAllTabs_dom[OF q] broadcastToAllTabs_results[OF q]
    by (auto simp: sendMessageToTab_def)
qed

theorem broadcastToAllTabs_partial_results_witness:
  "tabs_query three_tabs = Inr [\<lparr>tab_id = Some 1\<rparr>, \<lparr>tab_id = Some 2\<rparr>, \<lparr>tab_id = Some 3\<rparr>]
   \<and> dom (results (broadcastToAllTabs three_tabs action_message)) = {1, 2, 3}
   \<and> card (dom (results (broadcastToAllTabs three_tabs action_message))) = 3
   \<and> results (broadcastToAllTabs three_tabs action_message) 1 =
       Some \<lparr>success = True, data = None, error = None\<rparr>
   \<and> results (broadcastToAllTabs three_tabs action_message) 2 =
       Some \<lparr>success = False, data = None,
             error = Some ''Could not establish connection. Receiving end does not exist.''\<rparr>
   \<and> results (broadcastToAllTabs three_tabs action_message) 3 =
       Some \<lparr>success = True, data = None, error = None\<rparr>"
proof -
  let ?tabs = "[\<lparr>tab_id = Some 1\<rparr>, \<lparr>tab_id = Some 2\<rparr>, \<lparr>tab_id = Some 3\<rparr>]"
  let ?B = "broadcastToAllTabs three_tabs action_message"
  have q: "tabs_query three_tabs = Inr ?tabs"
    by (simp add: three_tabs_def)
  have ids: "{i. i \<noteq> 0 \<and> Some i \<in> tab_id ` set ?tabs} = {1, 2, 3}"
    by auto
  have send: "tabs_sendMessage three_tabs = tab_2_unreachable"
    by (simp add: three_tabs_def)
  note inst = broadcastToAllTabs_partial_results
    [of three_tabs "ErrorInstance []" action_message ?tabs]
  from inst q ids have d: "dom (results ?B) = {1, 2, 3}"
    by simp
  from inst q have entries:
    "\<forall>i \<in> dom (results ?B).
       (\<forall>e. tabs_sendMessage three_tabs i action_message = Inl e \<longrightarrow>
          results ?B i = Some \<lparr>success = False, data = None, error = Some (error_text e)\<rparr>)
     \<and> (\<forall>response. tabs_sendMessage three_tabs i action_message = Inr response \<longrightarrow>
          results ?B i = Some response)"
    by blast
  have r1: "results ?B 1 = Some \<lparr>success = True, data = None, error = None\<rparr>"
    using entries d send by (simp add: tab_2_unreachable_def)
  have r2: "results ?B 2 = Some \<lparr>success = False, data = None,
      error = Some ''Could not establish connection. Receiving end does not exist.''\<rparr>"
    using entries d send by (simp add: tab_2_unreachable_def)
  have r3: "results ?B 3 = Some \<lparr>success = True, data = None, error = None\<rparr>"
    using entries d send by (simp add: tab_2_unreachable_def)
  from q d r1 r2 r3 show ?thesis
    by simp
qed

text \<open>
  C9. When the enumeration rejects, the broadcast returns the empty mapping and sends
  nothing. Otherwise the sends go, in order, to the ids of exactly those tabs whose id is
  present and not \<open>0\<close>; the keys of the returned mapping are the ids that were sent to; so a
  tab without an id, or with the id \<open>0\<close>, gets no message and no entry.
\<close>

theorem broadcastToAllTabs_skips_falsy_ids:
  "(tabs_query chrome = Inl err \<longrightarrow>
      broadcastToAllTabs chrome message = \<lparr>results = Map.empty, sent_to = []\<rparr>)
   \<and> (tabs_query chrome = Inr tabs \<longrightarrow>
        sent_to (broadcastToAllTabs chrome message) =
          map (the \<circ> tab_id) (filter (\<lambda>t. tab_id t \<noteq> None \<and> tab_id t \<noteq> Some 0) tabs)
        \<and> dom (results (broadcastToAllTabs chrome message)) =
            set (sent_to (broadcastToAllTabs chrome message))
        \<and> 0 \<notin> set (sent_to (broadcastToAllTabs chrome message)))"
proof (intro conjI impI)
  assume "tabs_query chrome = Inl err"
  then show "broadcastToAllTabs chrome message = \<lparr>results = Map.empty, sent_to = []\<rparr>"
    by (rule broadcastToAllTabs_query_rejected)
next
  assume q: "tabs_query chrome = Inr tabs"
  show s: "sent_to (broadcastToAllTabs chrome message) =
          map (the \<circ> tab_id) (filter (\<lambda>t. tab_id t \<noteq> None \<and> tab_id t \<noteq> Some 0) tabs)"
    by (rule broadcastToAllTabs_sent_to[OF q])
  show "dom (results (broadcastToAllTabs chrome message)) =
          set (sent_to (broadcastToAllTabs chrome message))"
    using broadcastToAllTabs_dom[OF q] s set_truthy_ids[of tabs] by simp
  show "0 \<notin> set (sent_to (broadcastToAllTabs chrome message))"
    using s set_truthy_ids[of tabs] by simp
qed

theorem broadcastToAllTabs_skips_falsy_ids_witness:
  "tabs_query tabs_query_rejects = Inl (ErrorInstance ''Tabs cannot be queried right now'')
   \<and> broadcastToAllTabs tabs_query_rejects action_message =
       \<lparr>results = Map.empty, sent_to = []\<rparr>
   \<and> tabs_query tabs_with_falsy_ids =
       Inr [\<lparr>tab_id = Some 1\<rparr>, \<lparr>tab_id = None\<rparr>, \<lparr>tab_id = Some 0\<rparr>, \<lparr>tab_id = Some 3\<rparr>]
   \<and> sent_to (broadcastToAllTabs tabs_with_falsy_ids action_message) = [1, 3]
   \<and> dom (results (broadcastToAllTabs tabs_with_falsy_ids action_message)) = {1, 3}"
proof -
  let ?tabs = "[\<lparr>tab_id = Some 1\<rparr>, \<lparr>tab_id = None\<rparr>, \<lparr>tab_id = Some 0\<rparr>, \<lparr>tab_id = Some 3\<rparr>]"
  have q1: "tabs_query tabs_query_rejects = Inl (ErrorInstance ''Tabs cannot be queried right now'')"
    by (simp add: tabs_query_rejects_def)
  have q2: "tabs_query tabs_with_falsy_ids = Inr ?tabs"
    by (simp add: tabs_with_falsy_ids_def)
  show ?thesis
    using q1 q2
      broadcastToAllTabs_skips_falsy_ids
        [of tabs_query_rejects "ErrorInstance ''Tabs cannot be queried right now''"
          action_message ?tabs]
      broadcastToAllTabs_skips_falsy_ids
        [of tabs_with_falsy_ids "ErrorInstance []" action_message ?tabs]
    by simp
qed

section \<open>Properties of the settings store\<close>

lemma own_props_DEFAULT_dom: "dom (own_props DEFAULT_USER_SETTINGS) = set default_top_level"
  by (auto simp: DEFAULT_USER_SETTINGS_def default_top_level_def split: if_splits)

lemma DEFAULT_USER_SETTINGS_schema: "contains_default_schema DEFAULT_USER_SETTINGS"
  by (simp add: contains_default_schema_def default_schema_def DEFAULT_USER_SETTINGS_def)

lemma JObj_own_props_DEFAULT: "JObj (own_props DEFAULT_USER_SETTINGS) = DEFAULT_USER_SETTINGS"
  by (simp add: DEFAULT_USER_SETTINGS_def)

lemma spread_DEFAULT_DEFAULT:
  "spread DEFAULT_USER_SETTINGS DEFAULT_USER_SETTINGS = DEFAULT_USER_SETTINGS"
  by (simp add: spread_def DEFAULT_USER_SETTINGS_def)

lemma own_props_spread: "own_props (spread a b) = own_props a ++ own_props b"
  by (simp add: spread_def)

text \<open>What a read of a key returns: the stored value unless the read rejects, or nothing or
  \<open>null\<close> is stored.\<close>

lemma getStorageValue_cases:
  "getStorageValue chrome key d =
     (if sync_get_rejects chrome = None \<and> sync_items chrome key \<noteq> None
         \<and> sync_items chrome key \<noteq> Some JNull
      then the (sync_items chrome key) else d)"
  by (auto simp: getStorageValue_def storage_sync_get_def split: option.splits json.splits)

lemma getUserSettings_stored:
  assumes "sync_get_rejects chrome = None" and "sync_items chrome USER_SETTINGS = Some v"
    and "v \<noteq> JNull"
  shows "getUserSettings chrome = spread DEFAULT_USER_SETTINGS v"
  using assms by (simp add: getUserSettings_def getStorageValue_cases)

lemma getUserSettings_fallback:
  assumes "sync_get_rejects chrome \<noteq> None \<or> sync_items chrome USER_SETTINGS = None
           \<or> sync_items chrome USER_SETTINGS = Some JNull"
  shows "getUserSettings chrome = DEFAULT_USER_SETTINGS"
  using assms by (auto simp add: getUserSettings_def getStorageValue_cases spread_DEFAULT_DEFAULT)

lemma has_path_spread_top:
  "has_path (spread a b) [k] = (own_props a k \<noteq> None \<or> own_props b k \<noteq> None)"
  by (auto simp: spread_def map_add_def split: option.splits)

lemma has_path_spread_nested:
  "has_path (spread a (JObj P)) (k # ks) =
     (if P k \<noteq> None then has_path (JObj P) (k # ks) else has_path (JObj (own_props a)) (k # ks))"
  by (auto simp: spread_def map_add_def split: option.splits)

lemma contains_top_level_spread: "contains_top_level (spread DEFAULT_USER_SETTINGS v)"
  unfolding contains_top_level_def list_all_iff
proof
  fix k assume "k \<in> set default_top_level"
  then have "own_props DEFAULT_USER_SETTINGS k \<noteq> None"
    using own_props_DEFAULT_dom by blast
  then show "has_path (spread DEFAULT_USER_SETTINGS v) [k]"
    by (simp add: has_path_spread_top)
qed

lemma contains_top_level_getUserSettings: "contains_top_level (getUserSettings chrome)"
  by (simp add: getUserSettings_def contains_top_level_spread)

lemma has_path_DEFAULT_notifications:
  "has_path DEFAULT_USER_SETTINGS [''notifications'', f] = (f = ''enabled'' \<or> f = ''sound'')"
  by (simp add: DEFAULT_USER_SETTINGS_def)

lemma contains_default_schema_iff:
  "contains_default_schema v \<longleftrightarrow>
     contains_top_level v \<and> has_path v [''notifications'', ''enabled'']
     \<and> has_path v [''notifications'', ''sound'']"
  by (auto simp: contains_default_schema_def default_schema_def contains_top_level_def
      default_top_level_def)

text \<open>
  C1, as the claim states it, fails: the slot holds a record whose \<open>notifications\<close> lacks
  \<open>sound\<close>; the default schema has the field \<open>notifications.sound\<close>, and the record that
  \<open>getUserSettings\<close> returns does not.
\<close>

theorem getUserSettings_nested_sound_counterexample:
  "sync_items legacy_storage USER_SETTINGS = Some legacy_settings
   \<and> has_path DEFAULT_USER_SETTINGS [''notifications'', ''sound'']
   \<and> \<not> has_path (getUserSettings legacy_storage) [''notifications'', ''sound'']
   \<and> \<not> contains_default_schema (getUserSettings legacy_storage)"
  by (simp add: legacy_storage_def legacy_settings_def getUserSettings_def
      getStorageValue_def storage_sync_get_def USER_SETTINGS_def spread_def
      DEFAULT_USER_SETTINGS_def contains_default_schema_def default_schema_def)

text \<open>
  C1, amended. For every object \<open>P\<close> in the settings slot, \<open>getUserSettings\<close> returns a record
  with every top-level field of the default schema. The merge is shallow: a nested field
  \<open>notifications.f\<close> of the result is the one of \<open>P\<close> when the read succeeds and \<open>P\<close> has a
  \<open>notifications\<close> field, and otherwise the one of the defaults (\<open>enabled\<close>, \<open>sound\<close>). So the
  result has every field of the default schema, the nested ones included, when \<open>P\<close> has no
  \<open>notifications\<close> field or has one with both nested fields.
\<close>

theorem getUserSettings_merge_top_level:
  assumes "sync_items chrome USER_SETTINGS = Some (JObj P)"
  shows "contains_top_level (getUserSettings chrome)
       \<and> (\<forall>f. has_path (getUserSettings chrome) [''notifications'', f] =
            (if sync_get_rejects chrome = None \<and> P ''notifications'' \<noteq> None
             then has_path (JObj P) [''notifications'', f]
             else f = ''enabled'' \<or> f = ''sound''))
       \<and> (P ''notifications'' = None
            \<or> has_path (JObj P) [''notifications'', ''enabled'']
              \<and> has_path (JObj P) [''notifications'', ''sound'']
          \<longrightarrow> contains_default_schema (getUserSettings chrome))"
proof -
  have top: "contains_top_level (getUserSettings chrome)"
    by (rule contains_top_level_getUserSettings)
  have nested: "has_path (getUserSettings chrome) [''notifications'', f] =
            (if sync_get_rejects chrome = None \<and> P ''notifications'' \<noteq> None
             then has_path (JObj P) [''notifications'', f]
             else f = ''enabled'' \<or> f = ''sound'')" for f
  proof (cases "sync_get_rejects chrome")
    case None
    then have "getUserSettings chrome = spread DEFAULT_USER_SETTINGS (JObj P)"
      using assms by (simp add: getUserSettings_stored)
    then show ?thesis
      using None has_path_spread_nested[of DEFAULT_USER_SETTINGS P "''notifications''" "[f]"]
      by (simp add: JObj_own_props_DEFAULT has_path_DEFAULT_notifications)
  next
    case (Some e)
    then have "getUserSettings chrome = DEFAULT_USER_SETTINGS"
      by (simp add: getUserSettings_fallback)
    then show ?thesis
      using Some by (simp add: has_path_DEFAULT_notifications)
  qed
  have full: "contains_default_schema (getUserSettings chrome)"
    if "P ''notifications'' = None
        \<or> has_path (JObj P) [''notifications'', ''enabled'']
          \<and> has_path (JObj P) [''notifications'', ''sound'']"
  proof (cases "sync_get_rejects chrome = None \<and> P ''notifications'' \<noteq> None")
    case True
    with that have "has_path (JObj P) [''notifications'', ''enabled'']"
      and "has_path (JObj P) [''notifications'', ''sound'']"
      by blast+
    with True top show ?thesis
      unfolding contains_default_schema_iff by (simp only: nested if_True simp_thms)
  next
    case False
    with top show ?thesis
      unfolding contains_default_schema_iff by (simp only: nested if_False simp_thms)
  qed
  from top nested full show ?thesis
    by blast
qed

theorem getUserSettings_merge_top_level_witness:
  "sync_items theme_only_storage USER_SETTINGS = Some (JObj [''theme'' \<mapsto> JStr ''dark''])
   \<and> contains_top_level (getUserSettings theme_only_storage)
   \<and> has_path (getUserSettings theme_only_storage) [''notifications'', ''sound'']
   \<and> contains_default_schema (getUserSettings theme_only_storage)"
proof -
  have h: "sync_items theme_only_storage USER_SETTINGS = Some (JObj [''theme'' \<mapsto> JStr ''dark''])"
    by (simp add: theme_only_storage_def)
  show ?thesis
    using h getUserSettings_merge_top_level[OF h]
    by simp
qed

lemma contains_default_schema_top:
  assumes "contains_default_schema X"
  shows "\<exists>m. X = JObj m \<and> set default_top_level \<subseteq> dom m"
proof (cases X)
  case (JObj m)
  with assms show ?thesis
    by (auto simp: contains_default_schema_def default_schema_def default_top_level_def
        split: option.splits)
qed (use assms in \<open>simp_all add: contains_default_schema_def default_schema_def\<close>)

lemma spread_DEFAULT_complete:
  assumes "set default_top_level \<subseteq> dom m"
  shows "spread DEFAULT_USER_SETTINGS (JObj m) = JObj m"
proof -
  have "own_props DEFAULT_USER_SETTINGS ++ m = m"
  proof
    fix k
    show "(own_props DEFAULT_USER_SETTINGS ++ m) k = m k"
    proof (cases "m k")
      case None
      then have "k \<notin> dom (own_props DEFAULT_USER_SETTINGS)"
        using assms own_props_DEFAULT_dom by blast
      with None show ?thesis by (simp add: map_add_def domIff)
    next
      case (Some v)
      then show ?thesis by (simp add: map_add_def)
    qed
  qed
  then show ?thesis by (simp add: spread_def)
qed

lemma saveUserSettings_ok:
  assumes "sync_set_rejects chrome = None"
  shows "saveUserSettings chrome v =
           (True, chrome\<lparr>sync_items := (sync_items chrome)(USER_SETTINGS \<mapsto> v)\<rparr>)"
  using assms by (simp add: saveUserSettings_def setStorageValue_def storage_sync_set_def)

lemma saveUserSettings_fails:
  assumes "sync_set_rejects chrome = Some e"
  shows "saveUserSettings chrome v = (False, chrome)"
  using assms by (simp add: saveUserSettings_def setStorageValue_def storage_sync_set_def)

text \<open>
  C7. On a storage whose write and read do not reject, saving a record that contains every
  field of the default schema succeeds, and the record that \<open>getUserSettings\<close> then returns
  is the saved record: the same properties with the same values at every depth.
\<close>

theorem save_get_round_trip:
  assumes "contains_default_schema X"
    and "sync_set_rejects chrome = None" and "sync_get_rejects chrome = None"
  shows "fst (saveUserSettings chrome X)
       \<and> getUserSettings (snd (saveUserSettings chrome X)) = X"
proof -
  from assms(1) obtain m where X: "X = JObj m" and m: "set default_top_level \<subseteq> dom m"
    using contains_default_schema_top by blast
  let ?chrome' = "chrome\<lparr>sync_items := (sync_items chrome)(USER_SETTINGS \<mapsto> X)\<rparr>"
  have "getUserSettings ?chrome' = spread DEFAULT_USER_SETTINGS X"
    using assms(3) X by (intro getUserSettings_stored) simp_all
  with X m show ?thesis
    by (simp add: saveUserSettings_ok[OF assms(2)] spread_DEFAULT_complete)
qed

theorem save_get_round_trip_witness:
  "contains_default_schema complete_settings
   \<and> sync_set_rejects theme_only_storage = None
   \<and> sync_get_rejects theme_only_storage = None
   \<and> fst (saveUserSettings theme_only_storage complete_settings)
   \<and> getUserSettings (snd (saveUserSettings theme_only_storage complete_settings)) =
       complete_settings"
proof -
  have h1: "contains_default_schema complete_settings"
    by (simp add: contains_default_schema_def default_schema_def complete_settings_def)
  have h2: "sync_set_rejects theme_only_storage = None"
    and h3: "sync_get_rejects theme_only_storage = None"
    by (simp_all add: theme_only_storage_def)
  show ?thesis
    using h1 h2 h3 save_get_round_trip[OF h1 h2 h3]
    by simp
qed

lemma updateUserSettings_saved:
  assumes "sync_set_rejects chrome = None"
  shows "updateUserSettings chrome updates =
           (Some (spread (getUserSettings chrome) updates),
            chrome\<lparr>sync_items :=
              (sync_items chrome)(USER_SETTINGS \<mapsto> spread (getUserSettings chrome) updates)\<rparr>)"
  by (simp add: updateUserSettings_def Let_def saveUserSettings_ok[OF assms])

lemma updateUserSettings_not_saved:
  assumes "sync_set_rejects chrome = Some e"
  shows "updateUserSettings chrome updates = (None, chrome)"
  by (simp add: updateUserSettings_def Let_def saveUserSettings_fails[OF assms])

text \<open>
  The part of C6 that holds on the code: when the write does not reject, the update returns
  the shallow merge of the update onto the current settings and stores it; every top-level
  field that the update does not name keeps the value it has in the current settings, and
  every field that the update names takes the update's value.
\<close>

lemma updateUserSettings_frame:
  assumes "sync_set_rejects chrome = None"
  shows "\<exists>newSettings.
           fst (updateUserSettings chrome (JObj U)) = Some newSettings
         \<and> sync_items (snd (updateUserSettings chrome (JObj U))) USER_SETTINGS = Some newSettings
         \<and> (\<forall>k. U k = None \<longrightarrow>
               own_props newSettings k = own_props (getUserSettings chrome) k)
         \<and> (\<forall>k v. U k = Some v \<longrightarrow> own_props newSettings k = Some v)"
  by (simp add: updateUserSettings_saved[OF assms] own_props_spread map_add_def)

text \<open>
  C6. The code departs from the claim where the read of the backing store fails: on the
  storage of the unit test, whose \<open>get\<close> rejects, updating the theme does not return the
  \<open>null\<close> sentinel; it returns the defaults with the new theme and stores them.
\<close>

theorem updateUserSettings_read_failure_returns_record:
  "sync_get_rejects unreadable_storage = Some (ErrorInstance ''Storage error'')
   \<and> fst (updateUserSettings unreadable_storage theme_update) \<noteq> None
   \<and> fst (updateUserSettings unreadable_storage theme_update) =
       Some (JObj [''tier'' \<mapsto> JStr ''free'',
                   ''enabled'' \<mapsto> JBool True,
                   ''theme'' \<mapsto> JStr ''dark'',
                   ''notifications'' \<mapsto>
                      JObj [''enabled'' \<mapsto> JBool True, ''sound'' \<mapsto> JBool False],
                   ''preferences'' \<mapsto> JObj Map.empty])
   \<and> sync_items (snd (updateUserSettings unreadable_storage theme_update)) USER_SETTINGS =
       fst (updateUserSettings unreadable_storage theme_update)"
proof -
  have w: "sync_set_rejects unreadable_storage = None"
    and r: "sync_get_rejects unreadable_storage = Some (ErrorInstance ''Storage error'')"
    by (simp_all add: unreadable_storage_def)
  have g: "getUserSettings unreadable_storage = DEFAULT_USER_SETTINGS"
    using r by (simp add: getUserSettings_fallback)
  have m: "spread DEFAULT_USER_SETTINGS theme_update =
       JObj [''tier'' \<mapsto> JStr ''free'',
             ''enabled'' \<mapsto> JBool True,
             ''theme'' \<mapsto> JStr ''dark'',
             ''notifications'' \<mapsto>
                JObj [''enabled'' \<mapsto> JBool True, ''sound'' \<mapsto> JBool False],
             ''preferences'' \<mapsto> JObj Map.empty]"
    by (auto simp: spread_def DEFAULT_USER_SETTINGS_def theme_update_def fun_eq_iff map_add_def)
  show ?thesis
    using r by (simp add: updateUserSettings_saved[OF w] g m)
qed

text \<open>
  C10. \<open>updateUserSettings\<close> returns \<open>null\<close> exactly when the write rejects. When the read
  rejects and the write does not, the returned record is the update merged onto the
  compiled defaults: with \<open>D\<close> the fields of the defaults and \<open>U\<close> the fields of the update, it
  has at each key the value of \<open>U\<close> if \<open>U\<close> has the key and the value of \<open>D\<close> otherwise. After
  the call the settings slot holds that record, whatever it held before.
\<close>

theorem updateUserSettings_null_only_on_save_failure:
  "(fst (updateUserSettings chrome updates) = None \<longleftrightarrow> sync_set_rejects chrome \<noteq> None)
   \<and> (sync_get_rejects chrome \<noteq> None \<and> sync_set_rejects chrome = None \<longrightarrow>
        fst (updateUserSettings chrome updates) = Some (spread DEFAULT_USER_SETTINGS updates)
        \<and> sync_items (snd (updateUserSettings chrome updates)) USER_SETTINGS =
            Some (spread DEFAULT_USER_SETTINGS updates))
   \<and> (\<forall>D U. DEFAULT_USER_SETTINGS = JObj D \<and> updates = JObj U
          \<and> sync_get_rejects chrome \<noteq> None \<and> sync_set_rejects chrome = None \<longrightarrow>
        (\<exists>merged.
           fst (updateUserSettings chrome updates) = Some (JObj merged)
           \<and> sync_items (snd (updateUserSettings chrome updates)) USER_SETTINGS =
               Some (JObj merged)
           \<and> (\<forall>k. merged k = (case U k of Some v \<Rightarrow> Some v | None \<Rightarrow> D k))))"
proof (cases "sync_set_rejects chrome")
  case None
  have merged: "spread (JObj D) (JObj U) =
      JObj (\<lambda>k. case U k of Some v \<Rightarrow> Some v | None \<Rightarrow> D k)" for D U
    by (simp add: spread_def map_add_def fun_eq_iff split: option.splits)
  show ?thesis
  proof (intro conjI allI impI)
    show "(fst (updateUserSettings chrome updates) = None) = (sync_set_rejects chrome \<noteq> None)"
      using None by (simp add: updateUserSettings_saved)
  next
    assume "sync_get_rejects chrome \<noteq> None \<and> sync_set_rejects chrome = None"
    then have g: "getUserSettings chrome = DEFAULT_USER_SETTINGS"
      by (simp add: getUserSettings_fallback)
    show "fst (updateUserSettings chrome updates) = Some (spread DEFAULT_USER_SETTINGS updates)"
      using None g by (simp add: updateUserSettings_saved)
    show "sync_items (snd (updateUserSettings chrome updates)) USER_SETTINGS =
            Some (spread DEFAULT_USER_SETTINGS updates)"
      using None g by (simp add: updateUserSettings_saved)
  next
    fix D U
    assume a: "DEFAULT_USER_SETTINGS = JObj D \<and> updates = JObj U
          \<and> sync_get_rejects chrome \<noteq> None \<and> sync_set_rejects chrome = None"
    then have g: "getUserSettings chrome = DEFAULT_USER_SETTINGS"
      by (simp add: getUserSettings_fallback)
    let ?merged = "\<lambda>k. case U k of Some v \<Rightarrow> Some v | None \<Rightarrow> D k"
    from a have "spread DEFAULT_USER_SETTINGS updates = spread (JObj D) (JObj U)"
      by simp
    then have sp: "spread DEFAULT_USER_SETTINGS updates = JObj ?merged"
      by (simp only: merged)
    have "fst (updateUserSettings chrome updates) = Some (JObj ?merged)"
      and "sync_items (snd (updateUserSettings chrome updates)) USER_SETTINGS =
             Some (JObj ?merged)"
      using None by (simp_all add: updateUserSettings_saved g sp)
    then show "\<exists>merged.
           fst (updateUserSettings chrome updates) = Some (JObj merged)
           \<and> sync_items (snd (updateUserSettings chrome updates)) USER_SETTINGS =
               Some (JObj merged)
           \<and> (\<forall>k. merged k = (case U k of Some v \<Rightarrow> Some v | None \<Rightarrow> D k))"
      by blast
  qed
next
  case (Some e)
  then show ?thesis
    by (simp add: updateUserSettings_not_saved)
qed

theorem updateUserSettings_null_only_on_save_failure_witness:
  "sync_get_rejects unreadable_customized_storage \<noteq> None
   \<and> sync_set_rejects unreadable_customized_storage = None
   \<and> sync_items unreadable_customized_storage USER_SETTINGS = Some complete_settings
   \<and> fst (updateUserSettings unreadable_customized_storage theme_update) =
       Some (JObj [''tier'' \<mapsto> JStr ''free'',
                   ''enabled'' \<mapsto> JBool True,
                   ''theme'' \<mapsto> JStr ''dark'',
                   ''notifications'' \<mapsto>
                      JObj [''enabled'' \<mapsto> JBool True, ''sound'' \<mapsto> JBool False],
                   ''preferences'' \<mapsto> JObj Map.empty])
   \<and> sync_items (snd (updateUserSettings unreadable_customized_storage theme_update))
       USER_SETTINGS =
       Some (JObj [''tier'' \<mapsto> JStr ''free'',
                   ''enabled'' \<mapsto> JBool True,
                   ''theme'' \<mapsto> JStr ''dark'',
                   ''notifications'' \<mapsto>
                      JObj [''enabled'' \<mapsto> JBool True, ''sound'' \<mapsto> JBool False],
                   ''preferences'' \<mapsto> JObj Map.empty])
   \<and> sync_set_rejects unwritable_storage \<noteq> None
   \<and> fst (updateUserSettings unwritable_storage theme_update) = None"
proof -
  let ?D = "[''tier'' \<mapsto> JStr ''free'',
             ''enabled'' \<mapsto> JBool True,
             ''theme'' \<mapsto> JStr ''system'',
             ''notifications'' \<mapsto>
                JObj [''enabled'' \<mapsto> JBool True, ''sound'' \<mapsto> JBool False],
             ''preferences'' \<mapsto> JObj Map.empty]"
  let ?U = "[''theme'' \<mapsto> JStr ''dark'']"
  let ?R = "[''tier'' \<mapsto> JStr ''free'',
             ''enabled'' \<mapsto> JBool True,
             ''theme'' \<mapsto> JStr ''dark'',
             ''notifications'' \<mapsto>
                JObj [''enabled'' \<mapsto> JBool True, ''sound'' \<mapsto> JBool False],
             ''preferences'' \<mapsto> JObj Map.empty]"
  have h1: "sync_get_rejects unreadable_customized_storage \<noteq> None"
    and h2: "sync_set_rejects unreadable_customized_storage = None"
    and h3: "sync_items unreadable_customized_storage USER_SETTINGS = Some complete_settings"
    by (simp_all add: unreadable_customized_storage_def)
  have h4: "sync_set_rejects unwritable_storage \<noteq> None"
    by (simp add: unwritable_storage_def)
  have d: "DEFAULT_USER_SETTINGS = JObj ?D"
    by (simp add: DEFAULT_USER_SETTINGS_def)
  have u: "theme_update = JObj ?U"
    by (simp add: theme_update_def)
  note inst = updateUserSettings_null_only_on_save_failure
    [of unreadable_customized_storage theme_update]
  from inst d u h1 h2 obtain merged where
    r: "fst (updateUserSettings unreadable_customized_storage theme_update) = Some (JObj merged)"
    and s: "sync_items (snd (updateUserSettings unreadable_customized_storage theme_update))
          USER_SETTINGS = Some (JObj merged)"
    and m: "\<forall>k. merged k = (case ?U k of Some v \<Rightarrow> Some v | None \<Rightarrow> ?D k)"
    by blast
  have "merged = ?R"
  proof
    fix k
    show "merged k = ?R k"
      using m by simp
  qed
  with r s have
    "fst (updateUserSettings unreadable_customized_storage theme_update) = Some (JObj ?R)"
    and "sync_items (snd (updateUserSettings unreadable_customized_storage theme_update))
          USER_SETTINGS = Some (JObj ?R)"
    by simp_all
  moreover have "fst (updateUserSettings unwritable_storage theme_update) = None"
    using h4 updateUserSettings_null_only_on_save_failure[of unwritable_storage theme_update]
    by blast
  ultimately show ?thesis
    using h1 h2 h3 h4 by blast
qed

end
